theory Spec2Isabelle
  imports Complex_Main "HOL-Library.Multiset" "HOL-Library.Sublist"
begin

section \<open>JavaScript values used by the flow-map pipeline\<close>

text \<open>
  The program is \<^verbatim>\<open>src/App - Copy1.tsx\<close>; the definitions below follow its second
  module (\<^verbatim>\<open>parseCSV\<close>, \<^verbatim>\<open>toNum\<close>, \<^verbatim>\<open>fixLon\<close>, \<^verbatim>\<open>USAMapVisualization\<close>,
  \<^verbatim>\<open>filteredData\<close>, \<^verbatim>\<open>mapData\<close>).

  A JavaScript number is a double. A finite double is represented by a real number
  (\<open>Fin\<close>); the three non-finite doubles are constructors of their own. Rounding of
  arithmetic results to the nearest double is not modelled, and neither is the sign of
  zero; overflow to an infinity and underflow to zero of a numeric literal are.

  A JavaScript string is a \<open>string\<close>: the characters are the code units below 256, read
  as the first 256 Unicode code points.
\<close>

datatype jsnum = Fin real | NaN | PInf | NInf

fun isFinite :: "jsnum \<Rightarrow> bool" where
  "isFinite (Fin x) = True"
| "isFinite _ = False"

text \<open>Unary minus.\<close>

fun js_neg :: "jsnum \<Rightarrow> jsnum" where
  "js_neg (Fin x) = Fin (- x)"
| "js_neg NaN = NaN"
| "js_neg PInf = NInf"
| "js_neg NInf = PInf"

text \<open>The comparison \<^verbatim>\<open>a > b\<close>: false as soon as one side is NaN.\<close>

fun js_gt :: "jsnum \<Rightarrow> jsnum \<Rightarrow> bool" where
  "js_gt (Fin a) (Fin b) = (a > b)"
| "js_gt NaN _ = False"
| "js_gt _ NaN = False"
| "js_gt PInf PInf = False"
| "js_gt PInf _ = True"
| "js_gt NInf _ = False"
| "js_gt (Fin a) NInf = True"
| "js_gt (Fin a) PInf = False"

text \<open>Binary \<^verbatim>\<open>+\<close> and \<^verbatim>\<open>-\<close> on numbers.\<close>

fun js_add :: "jsnum \<Rightarrow> jsnum \<Rightarrow> jsnum" where
  "js_add (Fin a) (Fin b) = Fin (a + b)"
| "js_add NaN _ = NaN"
| "js_add _ NaN = NaN"
| "js_add PInf NInf = NaN"
| "js_add NInf PInf = NaN"
| "js_add PInf _ = PInf"
| "js_add NInf _ = NInf"
| "js_add (Fin a) PInf = PInf"
| "js_add (Fin a) NInf = NInf"

definition js_sub :: "jsnum \<Rightarrow> jsnum \<Rightarrow> jsnum" where
  "js_sub a b = js_add a (js_neg b)"

text \<open>
  \<^verbatim>\<open>x || 0\<close> on a number: NaN and zero are falsy, every other number is kept.
\<close>

fun orZero :: "jsnum \<Rightarrow> jsnum" where
  "orZero NaN = Fin 0"
| "orZero n = n"

subsection \<open>Strings\<close>

abbreviation dquote :: char where "dquote \<equiv> CHR 0x22"
abbreviation LF :: char where "LF \<equiv> CHR 0x0A"
abbreviation CR :: char where "CR \<equiv> CHR 0x0D"

text \<open>
  White space and line terminators, as \<^verbatim>\<open>String.prototype.trim\<close> and the
  string-to-number conversion strip them: TAB, LF, VT, FF, CR, SPACE and NBSP.
\<close>

definition isWhite :: "char \<Rightarrow> bool" where
  "isWhite c = (c \<in> set [CHR 0x09, CHR 0x0A, CHR 0x0B, CHR 0x0C, CHR 0x0D, CHR 0x20, CHR 0xA0])"

definition trim :: "string \<Rightarrow> string" where
  "trim s = rev (dropWhile isWhite (rev (dropWhile isWhite s)))"

text \<open>\<^verbatim>\<open>s.split(',')\<close>: the pieces between the separators, at least one piece.\<close>

fun splitOn :: "char \<Rightarrow> string \<Rightarrow> string list" where
  "splitOn sep [] = [[]]"
| "splitOn sep (c # cs) =
     (if c = sep then [] # splitOn sep cs
      else (case splitOn sep cs of
              [] \<Rightarrow> [[c]]
            | p # ps \<Rightarrow> (c # p) # ps))"

text \<open>
  \<^verbatim>\<open>s.split(/\r?\n/)\<close>: a line feed ends a piece, and a carriage return right before
  it belongs to the separator.
\<close>

fun splitLines :: "string \<Rightarrow> string list" where
  "splitLines [] = [[]]"
| "splitLines [c] = (if c = LF then [[], []] else [[c]])"
| "splitLines (c # d # cs) =
     (if c = LF then [] # splitLines (d # cs)
      else if c = CR \<and> d = LF then [] # splitLines cs
      else (case splitLines (d # cs) of
              [] \<Rightarrow> [[c]]
            | p # ps \<Rightarrow> (c # p) # ps))"

text \<open>\<^verbatim>\<open>s.startsWith('"')\<close>, \<^verbatim>\<open>s.endsWith('"')\<close> and \<^verbatim>\<open>s.slice(1, -1)\<close>.\<close>

definition startsWithQuote :: "string \<Rightarrow> bool" where
  "startsWithQuote s = (s \<noteq> [] \<and> hd s = dquote)"

definition endsWithQuote :: "string \<Rightarrow> bool" where
  "endsWithQuote s = (s \<noteq> [] \<and> last s = dquote)"

definition slice1 :: "string \<Rightarrow> string" where
  "slice1 s = take (length s - 2) (drop 1 s)"

subsection \<open>The conversion of a string to a number\<close>

definition digitOf :: "char \<Rightarrow> nat" where
  "digitOf c =
     (let n = (of_char c :: nat) in
      if 48 \<le> n \<and> n \<le> 57 then n - 48
      else if 97 \<le> n \<and> n \<le> 102 then n - 87
      else if 65 \<le> n \<and> n \<le> 70 then n - 55
      else 16)"

definition isDigitIn :: "nat \<Rightarrow> char \<Rightarrow> bool" where
  "isDigitIn b c = (digitOf c < b)"

abbreviation isDigit :: "char \<Rightarrow> bool" where
  "isDigit \<equiv> isDigitIn 10"

definition digitsValue :: "nat \<Rightarrow> string \<Rightarrow> nat" where
  "digitsValue b ds = foldl (\<lambda>a c. a * b + digitOf c) 0 ds"

text \<open>
  The double nearest to a real: at or beyond \<open>2^1024 - 2^970\<close> it is an infinity, at or
  below \<open>2^-1075\<close> in magnitude it is zero, and in between the real stands for it.
  The real is not rounded: two literals that JavaScript reads as the same double are kept
  apart here, so equality of two \<open>Fin\<close> values read from text is finer than equality of
  the doubles. Sign, finiteness and being zero are those of the double.
\<close>

definition toDouble :: "real \<Rightarrow> jsnum" where
  "toDouble v =
     (if 2 ^ 1024 - 2 ^ 970 \<le> v then PInf
      else if v \<le> - (2 ^ 1024 - 2 ^ 970) then NInf
      else if \<bar>v\<bar> \<le> 1 / 2 ^ 1075 then Fin 0
      else Fin v)"

text \<open>\<open>0x\<close>, \<open>0o\<close> and \<open>0b\<close> literals: no sign, at least one digit.\<close>

definition radixOf :: "char \<Rightarrow> nat" where
  "radixOf x =
     (if x = CHR ''x'' \<or> x = CHR ''X'' then 16
      else if x = CHR ''o'' \<or> x = CHR ''O'' then 8
      else if x = CHR ''b'' \<or> x = CHR ''B'' then 2
      else 0)"

definition radixLiteral :: "string \<Rightarrow> jsnum option" where
  "radixLiteral t =
     (case t of
        z # x # ds \<Rightarrow>
          if z = CHR ''0'' \<and> ds \<noteq> [] \<and> radixOf x \<noteq> 0 \<and> list_all (isDigitIn (radixOf x)) ds
          then Some (toDouble (real (digitsValue (radixOf x) ds)))
          else None
      | _ \<Rightarrow> None)"

text \<open>The exponent part after the mantissa; nothing left means exponent 0.\<close>

definition signedDigits :: "string \<Rightarrow> int option" where
  "signedDigits r =
     (let neg = (r \<noteq> [] \<and> hd r = CHR ''-'');
          ds = (if r \<noteq> [] \<and> (hd r = CHR ''-'' \<or> hd r = CHR ''+'') then tl r else r)
      in if ds \<noteq> [] \<and> list_all isDigit ds
         then Some (if neg then - int (digitsValue 10 ds) else int (digitsValue 10 ds))
         else None)"

definition exponentPart :: "string \<Rightarrow> int option" where
  "exponentPart r =
     (case r of
        [] \<Rightarrow> Some 0
      | c # r' \<Rightarrow> if c = CHR ''e'' \<or> c = CHR ''E'' then signedDigits r' else None)"

definition scale10 :: "nat \<Rightarrow> int \<Rightarrow> real" where
  "scale10 m k = (if 0 \<le> k then real m * 10 ^ nat k else real m / 10 ^ nat (- k))"

definition unsignedDecimal :: "string \<Rightarrow> jsnum option" where
  "unsignedDecimal u =
     (if u = ''Infinity'' then Some PInf
      else
        let ip = takeWhile isDigit u;
            r1 = dropWhile isDigit u;
            hasDot = (r1 \<noteq> [] \<and> hd r1 = CHR ''.'');
            fp = (if hasDot then takeWhile isDigit (tl r1) else []);
            r2 = (if hasDot then dropWhile isDigit (tl r1) else r1)
        in if ip = [] \<and> fp = [] then None
           else (case exponentPart r2 of
                   None \<Rightarrow> None
                 | Some e \<Rightarrow>
                     Some (toDouble (scale10 (digitsValue 10 (ip @ fp)) (e - int (length fp))))))"

text \<open>\<^verbatim>\<open>Number(s)\<close> for a string \<open>s\<close>: the empty string is 0, anything unreadable NaN.\<close>

definition strToNumber :: "string \<Rightarrow> jsnum" where
  "strToNumber s =
     (let t = trim s in
      if t = [] then Fin 0
      else (case radixLiteral t of
              Some n \<Rightarrow> n
            | None \<Rightarrow>
                if hd t = CHR ''-'' then
                  (case unsignedDecimal (tl t) of Some n \<Rightarrow> js_neg n | None \<Rightarrow> NaN)
                else if hd t = CHR ''+'' then
                  (case unsignedDecimal (tl t) of Some n \<Rightarrow> n | None \<Rightarrow> NaN)
                else
                  (case unsignedDecimal t of Some n \<Rightarrow> n | None \<Rightarrow> NaN)))"

section \<open>The CSV parser\<close>

text \<open>
  A cell of a parsed row is a string or a number; a key a row lacks reads as undefined
  (\<open>None\<close>). The row object is a map from header names to cells; a header that names a
  property of \<^verbatim>\<open>Object.prototype\<close> is not treated apart.
\<close>

datatype cell = Str string | Num jsnum

type_synonym RawRow = "string \<rightharpoonup> cell"

text \<open>
  The coercion of a field, as \<^verbatim>\<open>parseCSV\<close> writes it at both of its field boundaries:
  \<^verbatim>\<open>
  let val: any = currentVal.trim();
  if (!isNaN(val) && val !== '') val = Number(val);
  if (typeof val === 'string' && val.startsWith('"') && val.endsWith('"')) val = val.slice(1, -1);
  \<close>
  \<open>numericStep\<close> is the second line and \<open>stripGuard\<close> the condition of the third.
\<close>

definition numericStep :: "string \<Rightarrow> cell" where
  "numericStep val = (if strToNumber val \<noteq> NaN \<and> val \<noteq> [] then Num (strToNumber val) else Str val)"

fun stripGuard :: "cell \<Rightarrow> bool" where
  "stripGuard (Str s) = (startsWithQuote s \<and> endsWithQuote s)"
| "stripGuard (Num n) = False"

definition coerce :: "string \<Rightarrow> cell" where
  "coerce currentVal =
     (let val = numericStep (trim currentVal)
      in if stripGuard val then (case val of Str s \<Rightarrow> Str (slice1 s) | Num n \<Rightarrow> Num n) else val)"

text \<open>The variables of the loop over the characters of one line.\<close>

record scan =
  row :: RawRow
  currentVal :: string
  inQuote :: bool
  colIndex :: nat

definition scanInit :: scan where
  "scanInit = \<lparr> row = Map.empty, currentVal = [], inQuote = False, colIndex = 0 \<rparr>"

text \<open>The assignment \<^verbatim>\<open>row[headers[colIndex]] = val\<close> under its guard.\<close>

definition storeField :: "string list \<Rightarrow> scan \<Rightarrow> RawRow" where
  "storeField headers st =
     (if colIndex st < length headers
      then (row st)(headers ! colIndex st \<mapsto> coerce (currentVal st))
      else row st)"

text \<open>One turn of the loop, on the character \<open>c\<close>.\<close>

definition scanChar :: "string list \<Rightarrow> char \<Rightarrow> scan \<Rightarrow> scan" where
  "scanChar headers c st =
     (if c = dquote then st\<lparr> inQuote := \<not> inQuote st \<rparr>
      else if c = CHR '','' \<and> \<not> inQuote st then
        st\<lparr> row := storeField headers st, colIndex := colIndex st + 1, currentVal := [] \<rparr>
      else st\<lparr> currentVal := currentVal st @ [c] \<rparr>)"

definition parseLine :: "string list \<Rightarrow> string \<Rightarrow> RawRow" where
  "parseLine headers line = storeField headers (fold (scanChar headers) line scanInit)"

definition parseCSV :: "string \<Rightarrow> RawRow list" where
  "parseCSV csvText =
     (let lines = filter (\<lambda>line. trim line \<noteq> []) (splitLines csvText)
      in if lines = [] then []
         else map (parseLine (map trim (splitOn CHR '','' (hd lines)))) (tl lines))"

section \<open>Coordinate repair\<close>

text \<open>
  \<^verbatim>\<open>
  const toNum = (v: any) => {
    const s = String(v ?? '').trim().replaceAll('"', '');
    const x = Number(s);
    return Number.isFinite(x) ? x : NaN;
  };
  \<close>
  An undefined cell reads as the empty string. For a number \<open>n\<close>, \<^verbatim>\<open>String(n)\<close> holds
  neither white space nor a quote and \<^verbatim>\<open>Number(String(n))\<close> is \<open>n\<close> again, so \<open>x\<close> is \<open>n\<close>.
\<close>

definition removeQuotes :: "string \<Rightarrow> string" where
  "removeQuotes s = filter (\<lambda>c. c \<noteq> dquote) s"

definition finiteOrNaN :: "jsnum \<Rightarrow> jsnum" where
  "finiteOrNaN x = (if isFinite x then x else NaN)"

fun toNum :: "cell option \<Rightarrow> jsnum" where
  "toNum None = finiteOrNaN (strToNumber (removeQuotes (trim [])))"
| "toNum (Some (Str s)) = finiteOrNaN (strToNumber (removeQuotes (trim s)))"
| "toNum (Some (Num n)) = finiteOrNaN n"

definition fixLon :: "jsnum \<Rightarrow> jsnum" where
  "fixLon lon = (if js_gt lon (Fin 0) then js_neg lon else lon)"

section \<open>Filtering, magnitude selection and ranking\<close>

datatype selectedYear = AllYears | Y2020 | Y2021 | Y2022

datatype selectedType = Total | Leisure | Business

text \<open>The four filter states of the component \<^verbatim>\<open>App\<close>.\<close>

record filters =
  year :: selectedYear
  purpose :: selectedType
  searchOrigin :: string
  searchDest :: string

text \<open>
  \<^verbatim>\<open>type FlowRow = any & { displayValue; displayType; oCoords?; dCoords? }\<close>: the cells of
  the parsed row, spread into the object, and the four declared fields. The four fields
  are kept apart from the cells: a column of the input that bears the name of one of them
  is overwritten by \<^verbatim>\<open>filteredData\<close> and \<^verbatim>\<open>mapData\<close> and is never read.
\<close>

record FlowRow =
  cells :: RawRow
  displayValue :: jsnum
  displayType :: selectedType
  oCoords :: "(jsnum \<times> jsnum) option"
  dCoords :: "(jsnum \<times> jsnum) option"

text \<open>\<^verbatim>\<open>parseInt(selectedYear)\<close> on the four values of the state, \<^verbatim>\<open>'All'\<close> first.\<close>

fun parseIntYear :: "selectedYear \<Rightarrow> jsnum" where
  "parseIntYear AllYears = NaN"
| "parseIntYear Y2020 = Fin 2020"
| "parseIntYear Y2021 = Fin 2021"
| "parseIntYear Y2022 = Fin 2022"

text \<open>\<^verbatim>\<open>v === n\<close> for a number \<open>n\<close>: only a number equals it, and NaN equals nothing.\<close>

fun strictEqNum :: "cell option \<Rightarrow> jsnum \<Rightarrow> bool" where
  "strictEqNum (Some (Num m)) n = (m = n \<and> m \<noteq> NaN)"
| "strictEqNum _ n = False"

text \<open>Truthiness, \<^verbatim>\<open>Number(v)\<close> and \<^verbatim>\<open>String(v)\<close> of a cell that may be undefined.\<close>

fun truthy :: "cell option \<Rightarrow> bool" where
  "truthy None = False"
| "truthy (Some (Str s)) = (s \<noteq> [])"
| "truthy (Some (Num n)) = (n \<noteq> NaN \<and> n \<noteq> Fin 0)"

fun toNumber :: "cell option \<Rightarrow> jsnum" where
  "toNumber None = NaN"
| "toNumber (Some (Str s)) = strToNumber s"
| "toNumber (Some (Num n)) = n"

text \<open>
  The decimal text of a number is outside this model of numbers: \<open>ns\<close> stands for
  \<^verbatim>\<open>String(n)\<close> on numbers, and every statement below holds for each choice of it.
\<close>

fun jsString :: "(jsnum \<Rightarrow> string) \<Rightarrow> cell option \<Rightarrow> string" where
  "jsString ns None = ''undefined''"
| "jsString ns (Some (Str s)) = s"
| "jsString ns (Some (Num n)) = ns n"

text \<open>\<^verbatim>\<open>toLowerCase\<close> on the first 256 code points: A to Z, and U+00C0 to U+00DE but U+00D7.\<close>

definition lowerChar :: "char \<Rightarrow> char" where
  "lowerChar c =
     (let n = (of_char c :: nat) in
      if (65 \<le> n \<and> n \<le> 90) \<or> (192 \<le> n \<and> n \<le> 222 \<and> n \<noteq> 215) then char_of (n + 32) else c)"

definition toLowerCase :: "string \<Rightarrow> string" where
  "toLowerCase s = map lowerChar s"

text \<open>\<^verbatim>\<open>hay.includes(q)\<close>: \<open>q\<close> starts at some position of \<open>hay\<close>.\<close>

fun includesStr :: "string \<Rightarrow> string \<Rightarrow> bool" where
  "includesStr [] q = (q = [])"
| "includesStr (c # cs) q = (prefix q (c # cs) \<or> includesStr cs q)"

text \<open>The callback of the first \<^verbatim>\<open>filter\<close> of \<^verbatim>\<open>filteredData\<close>.\<close>

definition yearTest :: "filters \<Rightarrow> RawRow \<Rightarrow> bool" where
  "yearTest f r = (\<not> (year f \<noteq> AllYears \<and> \<not> strictEqNum (r ''year'') (parseIntYear (year f))))"

definition textTest :: "(jsnum \<Rightarrow> string) \<Rightarrow> string \<Rightarrow> cell option \<Rightarrow> bool" where
  "textTest ns query name =
     (\<not> (query \<noteq> [] \<and> truthy name \<and> \<not> includesStr (toLowerCase (jsString ns name)) (toLowerCase query)))"

definition keepRow :: "(jsnum \<Rightarrow> string) \<Rightarrow> filters \<Rightarrow> RawRow \<Rightarrow> bool" where
  "keepRow ns f r =
     (if \<not> yearTest f r then False
      else if \<not> textTest ns (searchOrigin f) (r ''origin_name'') then False
      else if \<not> textTest ns (searchDest f) (r ''destination_name'') then False
      else True)"

text \<open>The callback of \<^verbatim>\<open>map\<close>: the magnitude of the selected purpose.\<close>

definition selectValue :: "filters \<Rightarrow> RawRow \<Rightarrow> cell option" where
  "selectValue f r =
     (if purpose f = Leisure then r ''total_wt_l_all''
      else if purpose f = Business then r ''total_wt_b_all''
      else r ''total_wt_t_all'')"

definition annotate :: "filters \<Rightarrow> RawRow \<Rightarrow> FlowRow" where
  "annotate f r =
     \<lparr> cells = r, displayValue = orZero (toNumber (selectValue f r)), displayType = purpose f,
       oCoords = None, dCoords = None \<rparr>"

text \<open>
  \<^verbatim>\<open>Array.prototype.sort\<close> with a comparator is a stable sort (ECMAScript 2019): \<open>x\<close>
  goes behind \<open>y\<close> only when \<^verbatim>\<open>cmp(x, y) > 0\<close> (a comparator result of NaN counts as 0).
  The order it gives is the one of this insertion sort whenever the comparator is
  consistent. For two doubles, the sign of \<^verbatim>\<open>b - a\<close> is the sign of the exact difference.
\<close>

fun insertBy :: "('a \<Rightarrow> 'a \<Rightarrow> jsnum) \<Rightarrow> 'a \<Rightarrow> 'a list \<Rightarrow> 'a list" where
  "insertBy cmp x [] = [x]"
| "insertBy cmp x (y # ys) =
     (if js_gt (cmp x y) (Fin 0) then y # insertBy cmp x ys else x # y # ys)"

definition jsSort :: "('a \<Rightarrow> 'a \<Rightarrow> jsnum) \<Rightarrow> 'a list \<Rightarrow> 'a list" where
  "jsSort cmp xs = foldr (insertBy cmp) xs []"

definition byValueDesc :: "FlowRow \<Rightarrow> FlowRow \<Rightarrow> jsnum" where
  "byValueDesc a b = js_sub (displayValue b) (displayValue a)"

definition positive :: "FlowRow \<Rightarrow> bool" where
  "positive r = js_gt (displayValue r) (Fin 0)"

definition filteredData :: "(jsnum \<Rightarrow> string) \<Rightarrow> filters \<Rightarrow> RawRow list \<Rightarrow> FlowRow list" where
  "filteredData ns f data =
     jsSort byValueDesc (filter positive (map (annotate f) (filter (keepRow ns f) data)))"

section \<open>The rows of the map\<close>

datatype topN = Top50 | Top100 | Top200

fun topCount :: "topN \<Rightarrow> nat" where
  "topCount Top50 = 50"
| "topCount Top100 = 100"
| "topCount Top200 = 200"

text \<open>The callback of \<^verbatim>\<open>map\<close> in \<^verbatim>\<open>mapData\<close>; \<open>None\<close> is its \<^verbatim>\<open>null\<close>.\<close>

definition mapRow :: "FlowRow \<Rightarrow> FlowRow option" where
  "mapRow r =
     (let lonO = fixLon (toNum (cells r ''lon_o''));
          latO = toNum (cells r ''lat_o'');
          lonD = fixLon (toNum (cells r ''lon_d''));
          latD = toNum (cells r ''lat_d'')
      in if isFinite lonO \<and> isFinite latO \<and> isFinite lonD \<and> isFinite latD
         then Some (r\<lparr> oCoords := Some (latO, lonO), dCoords := Some (latD, lonD) \<rparr>)
         else None)"

definition mapData :: "topN \<Rightarrow> FlowRow list \<Rightarrow> FlowRow list" where
  "mapData n fd = List.map_filter mapRow (take (topCount n) fd)"

section \<open>Stroke weights\<close>

text \<open>\<^verbatim>\<open>Math.max\<close> and \<^verbatim>\<open>Math.min\<close> of two numbers: NaN if one of them is.\<close>

fun js_max :: "jsnum \<Rightarrow> jsnum \<Rightarrow> jsnum" where
  "js_max NaN _ = NaN"
| "js_max _ NaN = NaN"
| "js_max a b = (if js_gt b a then b else a)"

fun js_min :: "jsnum \<Rightarrow> jsnum \<Rightarrow> jsnum" where
  "js_min NaN _ = NaN"
| "js_min _ NaN = NaN"
| "js_min a b = (if js_gt a b then b else a)"

text \<open>\<^verbatim>\<open>Math.log1p\<close>.\<close>

fun js_log1p :: "jsnum \<Rightarrow> jsnum" where
  "js_log1p (Fin x) = (if x < - 1 then NaN else if x = - 1 then NInf else Fin (ln (1 + x)))"
| "js_log1p NaN = NaN"
| "js_log1p PInf = PInf"
| "js_log1p NInf = NaN"

text \<open>\<^verbatim>\<open>*\<close> and \<^verbatim>\<open>/\<close>; a zero counts as positive.\<close>

fun js_mul :: "jsnum \<Rightarrow> jsnum \<Rightarrow> jsnum" where
  "js_mul (Fin a) (Fin b) = Fin (a * b)"
| "js_mul NaN _ = NaN"
| "js_mul _ NaN = NaN"
| "js_mul (Fin a) PInf = (if a = 0 then NaN else if 0 < a then PInf else NInf)"
| "js_mul (Fin a) NInf = (if a = 0 then NaN else if 0 < a then NInf else PInf)"
| "js_mul PInf (Fin b) = (if b = 0 then NaN else if 0 < b then PInf else NInf)"
| "js_mul NInf (Fin b) = (if b = 0 then NaN else if 0 < b then NInf else PInf)"
| "js_mul PInf PInf = PInf"
| "js_mul PInf NInf = NInf"
| "js_mul NInf PInf = NInf"
| "js_mul NInf NInf = PInf"

fun js_div :: "jsnum \<Rightarrow> jsnum \<Rightarrow> jsnum" where
  "js_div (Fin a) (Fin b) =
     (if b \<noteq> 0 then Fin (a / b) else if a = 0 then NaN else if 0 < a then PInf else NInf)"
| "js_div NaN _ = NaN"
| "js_div _ NaN = NaN"
| "js_div (Fin a) PInf = Fin 0"
| "js_div (Fin a) NInf = Fin 0"
| "js_div PInf (Fin b) = (if 0 \<le> b then PInf else NInf)"
| "js_div NInf (Fin b) = (if 0 \<le> b then NInf else PInf)"
| "js_div PInf _ = NaN"
| "js_div NInf _ = NaN"

text \<open>\<^verbatim>\<open>Math.pow(x, 1.15)\<close>: the exponent is positive and no integer.\<close>

fun js_pow115 :: "jsnum \<Rightarrow> jsnum" where
  "js_pow115 (Fin x) = (if x < 0 then NaN else Fin (x powr 1.15))"
| "js_pow115 NaN = NaN"
| "js_pow115 PInf = PInf"
| "js_pow115 NInf = PInf"

text \<open>\<^verbatim>\<open>Math.min(...logs)\<close> and \<^verbatim>\<open>Math.max(...logs)\<close>.\<close>

definition minOf :: "jsnum list \<Rightarrow> jsnum" where
  "minOf logs = foldr js_min logs PInf"

definition maxOf :: "jsnum list \<Rightarrow> jsnum" where
  "maxOf logs = foldr js_max logs NInf"

text \<open>
  \<^verbatim>\<open>Math.max(0, Number(f.displayValue) || 0)\<close>, the value that is drawn, and its
  logarithm as the \<^verbatim>\<open>useMemo\<close> of \<^verbatim>\<open>USAMapVisualization\<close> takes it.
\<close>

definition drawnValue :: "FlowRow \<Rightarrow> jsnum" where
  "drawnValue f = js_max (Fin 0) (orZero (displayValue f))"

definition logOf :: "FlowRow \<Rightarrow> jsnum" where
  "logOf f = js_log1p (drawnValue f)"

text \<open>The pair \<^verbatim>\<open>{ minLog, maxLog }\<close>.\<close>

definition minMaxLog :: "FlowRow list \<Rightarrow> jsnum \<times> jsnum" where
  "minMaxLog flows =
     (if flows = [] then (Fin 0, Fin 1)
      else
        let logs = map logOf flows;
            minL = minOf logs;
            maxL = maxOf logs
        in (minL, js_max maxL (js_add minL (Fin (1 / 10 ^ 6)))))"

definition minW :: jsnum where "minW = Fin 0.8"
definition maxW :: jsnum where "maxW = Fin 14.0"

definition strokeFor :: "jsnum \<times> jsnum \<Rightarrow> jsnum \<Rightarrow> jsnum" where
  "strokeFor mm vRaw =
     (let minLog = fst mm;
          maxLog = snd mm;
          v = js_max (Fin 0) vRaw;
          logv = js_log1p v;
          t = js_div (js_sub logv minLog) (js_sub maxLog minLog);
          t2 = js_pow115 (js_min (Fin 1) (js_max (Fin 0) t))
      in js_add minW (js_mul t2 (js_sub maxW minW)))"

text \<open>
  The weight of each polyline: \<^verbatim>\<open>flows.map\<close> draws nothing (\<open>None\<close>) for a flow
  without coordinates and a line of weight \<^verbatim>\<open>strokeFor(v)\<close> otherwise.
\<close>

definition lineWeights :: "FlowRow list \<Rightarrow> jsnum option list" where
  "lineWeights flows =
     map (\<lambda>f. if oCoords f = None \<or> dCoords f = None then None
              else Some (strokeFor (minMaxLog flows) (drawnValue f))) flows"

section \<open>Concrete inputs\<close>

text \<open>The text of the end-to-end scenario: the header line, a line feed, one data line.\<close>

definition scenarioText :: string where
  "scenarioText =
     ''year,origin_name,destination_name,lat_o,lon_o,lat_d,lon_d,total_wt_l_all,total_wt_b_all,total_wt_t_all''
     @ [LF] @ ''2021,'' @ [dquote] @ ''Boston, MA'' @ [dquote] @ '','' @ [dquote] @ ''Austin, TX'' @ [dquote]
     @ '',42.36,71.06,30.27,97.74,100,50,150''"

definition scenarioFilters :: filters where
  "scenarioFilters = \<lparr> year = AllYears, purpose = Total, searchOrigin = [], searchDest = [] \<rparr>"

definition scenarioRow :: RawRow where
  "scenarioRow =
     [''year'' \<mapsto> Num (Fin 2021), ''origin_name'' \<mapsto> Str ''Boston, MA'',
      ''destination_name'' \<mapsto> Str ''Austin, TX'', ''lat_o'' \<mapsto> Num (Fin 42.36),
      ''lon_o'' \<mapsto> Num (Fin 71.06), ''lat_d'' \<mapsto> Num (Fin 30.27), ''lon_d'' \<mapsto> Num (Fin 97.74),
      ''total_wt_l_all'' \<mapsto> Num (Fin 100), ''total_wt_b_all'' \<mapsto> Num (Fin 50),
      ''total_wt_t_all'' \<mapsto> Num (Fin 150)]"

text \<open>A header line and one data line whose only cell is written \<^verbatim>\<open>"007"\<close>.\<close>

definition quotedCellText :: string where
  "quotedCellText = ''code'' @ [LF] @ [dquote] @ ''007'' @ [dquote]"

section \<open>Predicates, the formula of the specification and further inputs\<close>

text \<open>The buffer and the string cells of a scanner state hold no double quote.\<close>

definition quoteFree :: "scan \<Rightarrow> bool" where
  "quoteFree st =
     (dquote \<notin> set (currentVal st) \<and> (\<forall>k s. row st k = Some (Str s) \<longrightarrow> dquote \<notin> set s))"




text \<open>
  One choice of \<open>ns\<close> for the closed instances: the text of the numbers that are not
  finite. The digits of a finite number are outside the model; no instance reads them.
\<close>

definition nonFiniteText :: "jsnum \<Rightarrow> string" where
  "nonFiniteText n =
     (case n of NaN \<Rightarrow> ''NaN'' | PInf \<Rightarrow> ''Infinity'' | NInf \<Rightarrow> ''-Infinity'' | Fin x \<Rightarrow> [])"

text \<open>A row whose origin cell is empty, and a filter state that searches origins for bos.\<close>

definition emptyOriginRow :: RawRow where
  "emptyOriginRow =
     [''year'' \<mapsto> Num (Fin 2021), ''origin_name'' \<mapsto> Str [],
      ''destination_name'' \<mapsto> Str ''Austin, TX'', ''total_wt_t_all'' \<mapsto> Num (Fin 150)]"

definition bostonFilters :: filters where
  "bostonFilters = \<lparr> year = AllYears, purpose = Total, searchOrigin = ''bos'', searchDest = [] \<rparr>"

text \<open>Two rows that agree on every cell but the four coordinates, and the same for flows.\<close>

definition coordKeys :: "string set" where
  "coordKeys = {''lat_o'', ''lon_o'', ''lat_d'', ''lon_d''}"

definition sameButCoords :: "RawRow \<Rightarrow> RawRow \<Rightarrow> bool" where
  "sameButCoords r r' = (\<forall>k. k \<notin> coordKeys \<longrightarrow> r k = r' k)"

definition sameFlow :: "FlowRow \<Rightarrow> FlowRow \<Rightarrow> bool" where
  "sameFlow a b =
     (sameButCoords (cells a) (cells b) \<and> displayValue a = displayValue b
      \<and> displayType a = displayType b)"

text \<open>The scenario's row with an unreadable origin longitude.\<close>

definition garbledRow :: RawRow where
  "garbledRow = scenarioRow(''lon_o'' \<mapsto> Str ''n/a'')"

text \<open>The scenario's text with the origin longitude left empty, and the row it parses to.\<close>

definition emptyLonText :: string where
  "emptyLonText =
     ''year,origin_name,destination_name,lat_o,lon_o,lat_d,lon_d,total_wt_l_all,total_wt_b_all,total_wt_t_all''
     @ [LF] @ ''2021,'' @ [dquote] @ ''Boston, MA'' @ [dquote] @ '','' @ [dquote] @ ''Austin, TX'' @ [dquote]
     @ '',42.36,,30.27,97.74,100,50,150''"

definition emptyLonRow :: RawRow where
  "emptyLonRow =
     [''year'' \<mapsto> Num (Fin 2021), ''origin_name'' \<mapsto> Str ''Boston, MA'',
      ''destination_name'' \<mapsto> Str ''Austin, TX'', ''lat_o'' \<mapsto> Num (Fin 42.36),
      ''lon_o'' \<mapsto> Str [], ''lat_d'' \<mapsto> Num (Fin 30.27), ''lon_d'' \<mapsto> Num (Fin 97.74),
      ''total_wt_l_all'' \<mapsto> Num (Fin 100), ''total_wt_b_all'' \<mapsto> Num (Fin 50),
      ''total_wt_t_all'' \<mapsto> Num (Fin 150)]"

text \<open>The scenario's text with the origin latitude 100, and the row it parses to.\<close>

definition highLatText :: string where
  "highLatText =
     ''year,origin_name,destination_name,lat_o,lon_o,lat_d,lon_d,total_wt_l_all,total_wt_b_all,total_wt_t_all''
     @ [LF] @ ''2021,'' @ [dquote] @ ''Boston, MA'' @ [dquote] @ '','' @ [dquote] @ ''Austin, TX'' @ [dquote]
     @ '',100,71.06,30.27,97.74,100,50,150''"

definition highLatRow :: RawRow where
  "highLatRow =
     [''year'' \<mapsto> Num (Fin 2021), ''origin_name'' \<mapsto> Str ''Boston, MA'',
      ''destination_name'' \<mapsto> Str ''Austin, TX'', ''lat_o'' \<mapsto> Num (Fin 100),
      ''lon_o'' \<mapsto> Num (Fin 71.06), ''lat_d'' \<mapsto> Num (Fin 30.27), ''lon_d'' \<mapsto> Num (Fin 97.74),
      ''total_wt_l_all'' \<mapsto> Num (Fin 100), ''total_wt_b_all'' \<mapsto> Num (Fin 50),
      ''total_wt_t_all'' \<mapsto> Num (Fin 150)]"

text \<open>A flow with both coordinate pairs, as the flows the map receives.\<close>

definition hasCoords :: "FlowRow \<Rightarrow> bool" where
  "hasCoords f = (oCoords f \<noteq> None \<and> dCoords f \<noteq> None)"

text \<open>
  The weight formula in the words of the specification:
  weight = 0.8 + (clamp((ln(1+v) - minLog) / (maxLog - minLog), 0, 1))^1.15 * (14.0 - 0.8).
\<close>

definition specWeight :: "real \<Rightarrow> real \<Rightarrow> real \<Rightarrow> real" where
  "specWeight minLog maxLog v =
     0.8 + (min 1 (max 0 ((ln (1 + v) - minLog) / (maxLog - minLog)))) powr 1.15 * (14.0 - 0.8)"

text \<open>A flow of the map with a given displayValue, for the closed instances.\<close>

definition flowOf :: "jsnum \<Rightarrow> FlowRow" where
  "flowOf v = \<lparr> cells = Map.empty, displayValue = v, displayType = Total,
      oCoords = Some (Fin 40, Fin (- 75)), dCoords = Some (Fin 30, Fin (- 98)) \<rparr>"

text \<open>The scenario's text with the total magnitude Infinity, and the row it parses to.\<close>

definition infinityText :: string where
  "infinityText =
     ''year,origin_name,destination_name,lat_o,lon_o,lat_d,lon_d,total_wt_l_all,total_wt_b_all,total_wt_t_all''
     @ [LF] @ ''2021,'' @ [dquote] @ ''Boston, MA'' @ [dquote] @ '','' @ [dquote] @ ''Austin, TX'' @ [dquote]
     @ '',42.36,71.06,30.27,97.74,100,50,Infinity''"

definition infinityRow :: RawRow where
  "infinityRow =
     [''year'' \<mapsto> Num (Fin 2021), ''origin_name'' \<mapsto> Str ''Boston, MA'',
      ''destination_name'' \<mapsto> Str ''Austin, TX'', ''lat_o'' \<mapsto> Num (Fin 42.36),
      ''lon_o'' \<mapsto> Num (Fin 71.06), ''lat_d'' \<mapsto> Num (Fin 30.27), ''lon_d'' \<mapsto> Num (Fin 97.74),
      ''total_wt_l_all'' \<mapsto> Num (Fin 100), ''total_wt_b_all'' \<mapsto> Num (Fin 50),
      ''total_wt_t_all'' \<mapsto> Num PInf]"

text \<open>
  The denominator \<^verbatim>\<open>maxLog - minLog\<close> of the normalization in \<^verbatim>\<open>strokeFor\<close>, for the
  flows the component receives.
\<close>

definition denominator :: "FlowRow list \<Rightarrow> jsnum" where
  "denominator flows = js_sub (snd (minMaxLog flows)) (fst (minMaxLog flows))"

text \<open>A number that is finite or plus infinity.\<close>

definition finOrPInf :: "jsnum \<Rightarrow> bool" where
  "finOrPInf x = (x \<noteq> NaN \<and> x \<noteq> NInf)"

text \<open>The scenario's text with the destination latitude left empty, and the row it parses to.\<close>

definition emptyLatText :: string where
  "emptyLatText =
     ''year,origin_name,destination_name,lat_o,lon_o,lat_d,lon_d,total_wt_l_all,total_wt_b_all,total_wt_t_all''
     @ [LF] @ ''2021,'' @ [dquote] @ ''Boston, MA'' @ [dquote] @ '','' @ [dquote] @ ''Austin, TX'' @ [dquote]
     @ '',42.36,71.06,,97.74,100,50,150''"

definition emptyLatRow :: RawRow where
  "emptyLatRow =
     [''year'' \<mapsto> Num (Fin 2021), ''origin_name'' \<mapsto> Str ''Boston, MA'',
      ''destination_name'' \<mapsto> Str ''Austin, TX'', ''lat_o'' \<mapsto> Num (Fin 42.36),
      ''lon_o'' \<mapsto> Num (Fin 71.06), ''lat_d'' \<mapsto> Str [], ''lon_d'' \<mapsto> Num (Fin 97.74),
      ''total_wt_l_all'' \<mapsto> Num (Fin 100), ''total_wt_b_all'' \<mapsto> Num (Fin 50),
      ''total_wt_t_all'' \<mapsto> Num (Fin 150)]"

text \<open>
  Three flows of magnitudes 10, 100 and 1000, in that order in the input; the map receives
  them ranked, the largest first.
\<close>

definition threeFlowsText :: string where
  "threeFlowsText =
     ''year,origin_name,destination_name,lat_o,lon_o,lat_d,lon_d,total_wt_l_all,total_wt_b_all,total_wt_t_all''
     @ [LF] @ ''2021,Albany,Boston,42.65,73.75,42.36,71.06,4,6,10''
     @ [LF] @ ''2021,Boston,Austin,42.36,71.06,30.27,97.74,60,40,100''
     @ [LF] @ ''2021,Austin,Denver,30.27,97.74,39.74,104.99,700,300,1000''"

text \<open>
  The weight \<open>w\<close> drawn for the flow \<open>f\<close> is the finite number the formula of the
  specification gives at the displayValue of \<open>f\<close>.
\<close>

definition weightMatches :: "real \<Rightarrow> real \<Rightarrow> FlowRow \<Rightarrow> jsnum option \<Rightarrow> bool" where
  "weightMatches lo hi f w =
     (\<exists>v. displayValue f = Fin v \<and> w = Some (Fin (specWeight lo hi v)))"

section \<open>Evaluation\<close>

lemmas number_defs = strToNumber_def trim_def isWhite_def radixLiteral_def radixOf_def
  unsignedDecimal_def isDigitIn_def digitOf_def exponentPart_def signedDigits_def toDouble_def
  scale10_def digitsValue_def

lemmas parser_defs = parseCSV_def parseLine_def scanChar_def storeField_def scanInit_def
  coerce_def numericStep_def startsWithQuote_def endsWithQuote_def slice1_def

lemmas selector_defs = filteredData_def keepRow_def yearTest_def textTest_def annotate_def
  selectValue_def positive_def jsSort_def byValueDesc_def js_sub_def toLowerCase_def lowerChar_def
  char_of_def bit_Suc_0_iff

lemmas mapdata_defs = mapData_def List.map_filter_simps mapRow_def fixLon_def finiteOrNaN_def
  removeQuotes_def Let_def

lemma minOf_Cons: "minOf (a # logs) = js_min a (minOf logs)"
  by (simp add: minOf_def)

lemma maxOf_Cons: "maxOf (a # logs) = js_max a (maxOf logs)"
  by (simp add: maxOf_def)

section \<open>The end-to-end scenario\<close>

lemma parse_scenario: "parseCSV scenarioText = [scenarioRow]"
  by (simp add: scenarioText_def scenarioRow_def parser_defs number_defs)

lemma filtered_scenario:
  "filteredData ns scenarioFilters [scenarioRow] = [annotate scenarioFilters scenarioRow]"
  by (simp add: selector_defs scenarioFilters_def scenarioRow_def)

text \<open>
  C1. On the scenario's text, with purpose total, year All and both queries empty, parsing,
  then filtering and ranking, then the coordinate repair of the top N rows gives exactly one
  flow record; its displayValue is 150, its origin coordinates are [42.36, -71.06] and its
  destination coordinates are [30.27, -97.74]. This holds for each of the three sizes N.
\<close>

theorem scenario_one_record:
  "\<exists>r. mapData n (filteredData ns scenarioFilters (parseCSV scenarioText)) = [r]
      \<and> displayValue r = Fin 150
      \<and> oCoords r = Some (Fin 42.36, Fin (- 71.06))
      \<and> dCoords r = Some (Fin 30.27, Fin (- 97.74))"
  unfolding parse_scenario filtered_scenario
  by (cases n) (simp_all add: mapdata_defs annotate_def selectValue_def scenarioFilters_def
      scenarioRow_def)

section \<open>The scan never keeps a double quote\<close>

lemma set_trim: "set (trim s) \<subseteq> set s"
proof -
  have "set (trim s) = set (dropWhile isWhite (rev (dropWhile isWhite s)))"
    by (simp add: trim_def)
  also have "\<dots> \<subseteq> set (rev (dropWhile isWhite s))"
    by (rule set_dropWhileD[THEN subsetI]) 
  also have "\<dots> \<subseteq> set s"
    using set_dropWhileD by fastforce
  finally show ?thesis .
qed

lemma guard_needs_quote:
  assumes "stripGuard (numericStep v)"
  shows "dquote \<in> set v"
proof -
  from assms have "startsWithQuote v"
    by (auto simp: numericStep_def split: if_splits)
  then have "v \<noteq> []" and "hd v = dquote"
    by (simp_all add: startsWithQuote_def)
  then show ?thesis
    using hd_in_set[of v] by simp
qed

lemma no_quote_no_strip: "dquote \<notin> set cur \<Longrightarrow> \<not> stripGuard (numericStep (trim cur))"
  using guard_needs_quote set_trim by blast

lemma coerce_quote_free:
  assumes "dquote \<notin> set cur" and "coerce cur = Str s"
  shows "dquote \<notin> set s"
proof -
  from assms(1) have g: "\<not> stripGuard (numericStep (trim cur))"
    by (rule no_quote_no_strip)
  with assms(2) have "numericStep (trim cur) = Str s"
    by (simp add: coerce_def)
  then have "s = trim cur"
    by (simp add: numericStep_def split: if_splits)
  with assms(1) set_trim show ?thesis by blast
qed

lemma storeField_quote_free:
  assumes "quoteFree st" and "storeField headers st k = Some (Str s)"
  shows "dquote \<notin> set s"
  using assms coerce_quote_free
  by (auto simp: quoteFree_def storeField_def split: if_splits)

lemma scanChar_quote_free: "quoteFree st \<Longrightarrow> quoteFree (scanChar headers c st)"
  unfolding scanChar_def
  by (auto simp: quoteFree_def dest: storeField_quote_free[unfolded quoteFree_def, rotated])

lemma fold_scan_quote_free: "quoteFree st \<Longrightarrow> quoteFree (fold (scanChar headers) p st)"
  by (induction p arbitrary: st) (simp_all add: scanChar_quote_free)

lemma scanInit_quote_free: "quoteFree scanInit"
  by (simp add: quoteFree_def scanInit_def)

lemma parseLine_quote_free: "parseLine headers line k = Some (Str s) \<Longrightarrow> dquote \<notin> set s"
  unfolding parseLine_def
  using storeField_quote_free fold_scan_quote_free scanInit_quote_free by blast

text \<open>
  C10. For every input text, no string cell of a parsed row holds a double quote: the scan
  toggles the flag on a quote and never appends it to the buffer. So at every state the
  scan of any line reaches, whatever the headers, the condition of the quote-stripping
  branch is false on the coerced buffer: that branch is never taken.
\<close>

theorem parser_cells_quote_free:
  "(\<forall>r \<in> set (parseCSV text). \<forall>k s. r k = Some (Str s) \<longrightarrow> dquote \<notin> set s)
   \<and> (\<forall>headers p. \<not> stripGuard (numericStep (trim (currentVal (fold (scanChar headers) p scanInit)))))"
proof (intro conjI ballI allI impI)
  fix r k s
  assume "r \<in> set (parseCSV text)" and "r k = Some (Str s)"
  then obtain headers line where "parseLine headers line k = Some (Str s)"
    by (auto simp: parseCSV_def Let_def split: if_splits)
  then show "dquote \<notin> set s" by (rule parseLine_quote_free)
next
  fix headers p
  have "quoteFree (fold (scanChar headers) p scanInit)"
    by (rule fold_scan_quote_free[OF scanInit_quote_free])
  then show "\<not> stripGuard (numericStep (trim (currentVal (fold (scanChar headers) p scanInit))))"
    by (simp add: quoteFree_def no_quote_no_strip)
qed

theorem parser_cells_quote_free_witness:
  "scenarioRow \<in> set (parseCSV scenarioText)
   \<and> scenarioRow ''origin_name'' = Some (Str ''Boston, MA'')
   \<and> dquote \<notin> set ''Boston, MA''"
  using parser_cells_quote_free[of scenarioText] parse_scenario
  by (simp add: scenarioRow_def)

section \<open>Quoted cells that look numeric\<close>

lemma trim_wrapped: "trim (dquote # body @ [dquote]) = dquote # body @ [dquote]"
  by (simp add: trim_def isWhite_def)

lemma quoted_not_numeric: "strToNumber (dquote # body @ [dquote]) = NaN"
  unfolding strToNumber_def trim_wrapped
  by (simp add: radixLiteral_def unsignedDecimal_def isDigitIn_def digitOf_def split: list.splits)

lemma coerce_wrapped: "coerce (dquote # body @ [dquote]) = Str body"
  unfolding coerce_def trim_wrapped
  by (simp add: numericStep_def quoted_not_numeric startsWithQuote_def endsWithQuote_def slice1_def)

lemma scanChar_inside_quotes:
  "c \<noteq> dquote \<Longrightarrow> inQuote st \<Longrightarrow>
     scanChar headers c st = st\<lparr> currentVal := currentVal st @ [c] \<rparr>"
  by (simp add: scanChar_def)

lemma scan_inside_quotes:
  "dquote \<notin> set body \<Longrightarrow> inQuote st \<Longrightarrow>
     fold (scanChar headers) body st = st\<lparr> currentVal := currentVal st @ body \<rparr>"
proof (induction body arbitrary: st)
  case Nil
  then show ?case by simp
next
  case (Cons c body)
  from Cons.prems have c: "c \<noteq> dquote" and b: "dquote \<notin> set body"
    by auto
  have "fold (scanChar headers) (c # body) st
        = fold (scanChar headers) body (st\<lparr> currentVal := currentVal st @ [c] \<rparr>)"
    using c Cons.prems(2) by (simp add: scanChar_inside_quotes)
  also have "\<dots> = st\<lparr> currentVal := currentVal st @ c # body \<rparr>"
    using b Cons.prems(2) by (subst Cons.IH) simp_all
  finally show ?case .
qed

lemma parse_quoted_cell:
  assumes "dquote \<notin> set body"
  shows "parseLine [h] (dquote # body @ [dquote]) h = Some (coerce body)"
proof -
  have "fold (scanChar [h]) (dquote # body @ [dquote]) scanInit
        = scanChar [h] dquote (fold (scanChar [h]) body (scanChar [h] dquote scanInit))"
    by simp
  also have "\<dots> = scanInit\<lparr> currentVal := body \<rparr>"
    using assms by (subst scan_inside_quotes) (simp_all add: scanChar_def scanInit_def)
  finally show ?thesis
    by (simp add: parseLine_def storeField_def scanInit_def)
qed

text \<open>
  C2, as the claim states it, fails: the data cell written \<^verbatim>\<open>"007"\<close> comes out of the
  parser as the number 7 and not as the string 007. And the coercion alone, on a field that
  still carries its quotes, turns \<^verbatim>\<open>"42"\<close> into the string 42 and not into the number.
\<close>

theorem quoted_007_counterexample:
  "length (parseCSV quotedCellText) = 1
   \<and> hd (parseCSV quotedCellText) ''code'' = Some (Num (Fin 7))
   \<and> hd (parseCSV quotedCellText) ''code'' \<noteq> Some (Str ''007'')
   \<and> coerce (dquote # ''42'' @ [dquote]) = Str ''42''"
  by (simp add: quotedCellText_def parser_defs number_defs)

lemma scan_quoted_cell:
  assumes "dquote \<notin> set body" and "\<not> inQuote st"
  shows "fold (scanChar headers) (dquote # body @ [dquote]) st
         = st\<lparr> currentVal := currentVal st @ body \<rparr>"
proof -
  let ?open = "st\<lparr> inQuote := True \<rparr>"
  have "fold (scanChar headers) (dquote # body @ [dquote]) st
        = scanChar headers dquote (fold (scanChar headers) body (scanChar headers dquote st))"
    by simp
  also have "scanChar headers dquote st = ?open"
    using assms(2) by (simp add: scanChar_def)
  also have "fold (scanChar headers) body ?open = ?open\<lparr> currentVal := currentVal ?open @ body \<rparr>"
    using assms(1) by (rule scan_inside_quotes) simp
  also have "scanChar headers dquote (?open\<lparr> currentVal := currentVal ?open @ body \<rparr>)
             = st\<lparr> currentVal := currentVal st @ body \<rparr>"
    using assms(2) by (cases st) (simp add: scanChar_def)
  finally show ?thesis .
qed

lemma storeField_other:
  "k \<notin> set (drop (colIndex st) headers) \<Longrightarrow> storeField headers st k = row st k"
proof -
  assume k: "k \<notin> set (drop (colIndex st) headers)"
  show ?thesis
  proof (cases "colIndex st < length headers")
    case True
    then have "headers ! colIndex st \<in> set (drop (colIndex st) headers)"
      by (metis Cons_nth_drop_Suc list.set_intros(1))
    with k have "k \<noteq> headers ! colIndex st" by auto
    with True show ?thesis by (simp add: storeField_def)
  next
    case False
    then show ?thesis by (simp add: storeField_def)
  qed
qed

lemma drop_Suc_subset: "k \<notin> set (drop n xs) \<Longrightarrow> k \<notin> set (drop (Suc n) xs)"
  by (metis drop_Suc in_set_dropD tl_drop drop_drop plus_1_eq_Suc)

lemma scanChar_keeps:
  assumes "k \<notin> set (drop (colIndex st) headers)"
  shows "row (scanChar headers c st) k = row st k
         \<and> k \<notin> set (drop (colIndex (scanChar headers c st)) headers)"
  using assms by (auto simp: scanChar_def storeField_other dest: drop_Suc_subset)

lemma scan_keeps:
  "k \<notin> set (drop (colIndex st) headers) \<Longrightarrow>
     row (fold (scanChar headers) rest st) k = row st k
     \<and> k \<notin> set (drop (colIndex (fold (scanChar headers) rest st)) headers)"
proof (induction rest arbitrary: st)
  case Nil
  then show ?case by simp
next
  case (Cons c rest)
  from scanChar_keeps[OF Cons.prems, of c]
  have a: "row (scanChar headers c st) k = row st k"
    and b: "k \<notin> set (drop (colIndex (scanChar headers c st)) headers)"
    by simp_all
  from Cons.IH[OF b] a show ?case by simp
qed

lemma parseLine_keeps:
  assumes "k \<notin> set (drop (colIndex st) headers)"
  shows "storeField headers (fold (scanChar headers) rest st) k = row st k"
  using scan_keeps[OF assms, of rest] by (simp add: storeField_other)

lemma parse_quoted_cell_at:
  assumes body: "dquote \<notin> set body"
    and st: "st = fold (scanChar headers) pre scanInit"
    and clean: "\<not> inQuote st" "currentVal st = []"
    and col: "colIndex st < length headers"
    and once: "headers ! colIndex st \<notin> set (drop (Suc (colIndex st)) headers)"
    and post: "post = [] \<or> hd post = CHR '',''"
  shows "parseLine headers (pre @ dquote # body @ [dquote] @ post) (headers ! colIndex st)
         = Some (coerce body)"
proof -
  let ?st1 = "st\<lparr> currentVal := body \<rparr>"
  have cell: "fold (scanChar headers) (dquote # body @ [dquote]) st = ?st1"
    using scan_quoted_cell[OF body clean(1), of headers] clean(2) by simp
  have "fold (scanChar headers) (pre @ dquote # body @ [dquote] @ post) scanInit
        = fold (scanChar headers) post (fold (scanChar headers) (dquote # body @ [dquote]) st)"
    unfolding st by simp
  then have all: "fold (scanChar headers) (pre @ dquote # body @ [dquote] @ post) scanInit
        = fold (scanChar headers) post ?st1"
    unfolding cell .
  show ?thesis
  proof (cases post)
    case Nil
    with all col show ?thesis
      by (simp add: parseLine_def storeField_def)
  next
    case (Cons c rest)
    with post have c: "c = CHR '',''" by simp
    let ?st2 = "scanChar headers CHR '','' ?st1"
    have row2: "row ?st2 (headers ! colIndex st) = Some (coerce body)"
      using clean(1) col by (simp add: scanChar_def storeField_def)
    have col2: "colIndex ?st2 = Suc (colIndex st)"
      using clean(1) by (simp add: scanChar_def)
    have "headers ! colIndex st \<notin> set (drop (colIndex ?st2) headers)"
      using once unfolding col2 .
    from parseLine_keeps[OF this, of rest] row2
    have "storeField headers (fold (scanChar headers) rest ?st2) (headers ! colIndex st)
          = Some (coerce body)"
      by simp
    with all Cons c show ?thesis
      by (simp add: parseLine_def)
  qed
qed

text \<open>
  C2, amended. A data cell written with surrounding quotes is coerced as its bare text,
  because the scan has dropped the quotes before the numeric check: \<^verbatim>\<open>"007"\<close> gives the
  number 7 and \<^verbatim>\<open>"42"\<close> the number 42. This holds at every column: the cell may follow
  any prefix of the line after which the scan is outside quotes with an empty buffer, at
  a column within the headers whose name no later column repeats, and it ends the line or
  is followed by a comma; the cell has no further quote inside. Only the coercion applied
  to a field that still carries its quotes returns a string: the numeric check fails on
  the quoted text and one layer of quotes is stripped afterwards.
\<close>

theorem quoted_cell_coercion:
  "(dquote \<notin> set body \<and> st = fold (scanChar headers) pre scanInit
      \<and> \<not> inQuote st \<and> currentVal st = [] \<and> colIndex st < length headers
      \<and> headers ! colIndex st \<notin> set (drop (Suc (colIndex st)) headers)
      \<and> (post = [] \<or> hd post = CHR '','') \<longrightarrow>
        parseLine headers (pre @ dquote # body @ [dquote] @ post) (headers ! colIndex st)
          = Some (coerce body))
   \<and> (dquote \<notin> set body \<longrightarrow> parseLine [h] (dquote # body @ [dquote]) h = Some (coerce body))
   \<and> coerce ''007'' = Num (Fin 7)
   \<and> coerce ''42'' = Num (Fin 42)
   \<and> coerce (dquote # body @ [dquote]) = Str body"
proof (intro conjI impI)
  show "coerce ''007'' = Num (Fin 7)" and "coerce ''42'' = Num (Fin 42)"
    by (simp_all add: coerce_def numericStep_def number_defs)
  show "parseLine headers (pre @ dquote # body @ [dquote] @ post) (headers ! colIndex st)
          = Some (coerce body)"
    if "dquote \<notin> set body \<and> st = fold (scanChar headers) pre scanInit
      \<and> \<not> inQuote st \<and> currentVal st = [] \<and> colIndex st < length headers
      \<and> headers ! colIndex st \<notin> set (drop (Suc (colIndex st)) headers)
      \<and> (post = [] \<or> hd post = CHR '','')"
    using that parse_quoted_cell_at[of body st headers pre post] by blast
qed (simp_all add: parse_quoted_cell coerce_wrapped)

lemma scan_year_prefix:
  "fold (scanChar [''year'', ''code'', ''n'']) ''2021,'' scanInit
   = \<lparr> row = [''year'' \<mapsto> Num (Fin 2021)], currentVal = [], inQuote = False, colIndex = 1 \<rparr>"
  by (simp add: parser_defs number_defs)

theorem quoted_cell_coercion_witness:
  "dquote \<notin> set ''007''
   \<and> \<not> inQuote (fold (scanChar [''year'', ''code'', ''n'']) ''2021,'' scanInit)
   \<and> currentVal (fold (scanChar [''year'', ''code'', ''n'']) ''2021,'' scanInit) = []
   \<and> colIndex (fold (scanChar [''year'', ''code'', ''n'']) ''2021,'' scanInit) = 1
   \<and> parseLine [''year'', ''code'', ''n''] (''2021,'' @ dquote # ''007'' @ [dquote] @ '',5'') ''code''
       = Some (Num (Fin 7))
   \<and> parseLine [''code''] (dquote # ''007'' @ [dquote]) ''code'' = Some (Num (Fin 7))
   \<and> coerce (dquote # ''007'' @ [dquote]) = Str ''007''"
proof -
  let ?st = "\<lparr> row = [''year'' \<mapsto> Num (Fin 2021)], currentVal = [], inQuote = False,
    colIndex = 1 \<rparr>"
  have st: "?st = fold (scanChar [''year'', ''code'', ''n'']) ''2021,'' scanInit"
    by (rule scan_year_prefix[symmetric])
  have cell: "parseLine [''year'', ''code'', ''n''] (''2021,'' @ dquote # ''007'' @ [dquote] @ '',5'')
      ([''year'', ''code'', ''n''] ! colIndex ?st) = Some (coerce ''007'')"
    using quoted_cell_coercion[of "''007''" ?st "[''year'', ''code'', ''n'']" "''2021,''" "'',5''"] st
    by simp
  have rest: "parseLine [''code''] (dquote # ''007'' @ [dquote]) ''code'' = Some (coerce ''007'')
      \<and> coerce ''007'' = Num (Fin 7) \<and> coerce (dquote # ''007'' @ [dquote]) = Str ''007''"
    using quoted_cell_coercion[of "''007''" ?st "[''year'', ''code'', ''n'']" "''2021,''" "'',5''" "''code''"]
    by simp
  from cell rest show ?thesis
    unfolding st[symmetric] by simp
qed

section \<open>Ranking\<close>
















section \<open>The text filters\<close>

lemma includesStr_sublist: "includesStr hay q = sublist q hay"
  by (induction hay) (simp_all add: sublist_Cons_right)

text \<open>
  C8, as the claim states it, fails: with the query bos, a row whose origin cell is the empty
  string passes the filter, though the query is not empty and the lowercased name does not
  contain it.
\<close>

theorem text_filter_counterexample:
  "keepRow nonFiniteText bostonFilters emptyOriginRow
   \<and> textTest nonFiniteText (searchOrigin bostonFilters) (emptyOriginRow ''origin_name'')
   \<and> searchOrigin bostonFilters \<noteq> []
   \<and> \<not> sublist (toLowerCase (searchOrigin bostonFilters))
         (toLowerCase (jsString nonFiniteText (emptyOriginRow ''origin_name'')))"
  by (simp add: keepRow_def yearTest_def textTest_def bostonFilters_def emptyOriginRow_def
      toLowerCase_def)

text \<open>
  C8, amended. A row is kept iff it passes the year test and both text tests. A text test
  passes iff the query is empty, or the lowercased name contains the lowercased query as a
  substring, or the name cell is falsy: absent, the empty string, 0 or NaN. An empty query
  always matches.
\<close>

theorem text_filter_rule:
  "(keepRow ns f r \<longleftrightarrow>
      yearTest f r \<and> textTest ns (searchOrigin f) (r ''origin_name'')
        \<and> textTest ns (searchDest f) (r ''destination_name''))
   \<and> (textTest ns query name \<longleftrightarrow>
        query = [] \<or> sublist (toLowerCase query) (toLowerCase (jsString ns name))
          \<or> name \<in> {None, Some (Str []), Some (Num (Fin 0)), Some (Num NaN)})
   \<and> textTest ns [] name"
proof (intro conjI)
  have "truthy name \<longleftrightarrow> name \<notin> {None, Some (Str []), Some (Num (Fin 0)), Some (Num NaN)}"
    by (cases name rule: truthy.cases) auto
  then show "textTest ns query name \<longleftrightarrow>
        query = [] \<or> sublist (toLowerCase query) (toLowerCase (jsString ns name))
          \<or> name \<in> {None, Some (Str []), Some (Num (Fin 0)), Some (Num NaN)}"
    unfolding textTest_def includesStr_sublist by blast
qed (simp_all add: keepRow_def textTest_def)

theorem text_filter_rule_witness:
  "textTest nonFiniteText ''bos'' (Some (Str ''Boston, MA''))
   \<and> sublist (toLowerCase ''bos'') (toLowerCase ''Boston, MA'')
   \<and> \<not> textTest nonFiniteText ''bos'' (Some (Str ''Austin, TX''))
   \<and> textTest nonFiniteText ''bos'' None"
  using text_filter_rule[of nonFiniteText bostonFilters emptyOriginRow "''bos''" "Some (Str ''Boston, MA'')"]
  by (simp add: textTest_def toLowerCase_def lowerChar_def char_of_def bit_Suc_0_iff
      includesStr_sublist[symmetric])

section \<open>Rows without readable coordinates\<close>

text \<open>
  The filtered and ranked sequence does not depend on the coordinate cells: two inputs
  that differ only there give the same records at the same positions
  (\<open>filteredData_same\<close>). A row with an unreadable longitude is ranked and is left out of
  the rows of the map (\<open>garbled_row_dropped\<close>).
\<close>

lemma keepRow_same: "sameButCoords r r' \<Longrightarrow> keepRow ns f r = keepRow ns f r'"
  by (simp add: sameButCoords_def coordKeys_def keepRow_def yearTest_def)

lemma annotate_same: "sameButCoords r r' \<Longrightarrow> sameFlow (annotate f r) (annotate f r')"
  by (simp add: sameFlow_def annotate_def selectValue_def sameButCoords_def coordKeys_def)

lemma filter_all2:
  "list_all2 R xs ys \<Longrightarrow> (\<And>x y. R x y \<Longrightarrow> P x = Q y) \<Longrightarrow> list_all2 R (filter P xs) (filter Q ys)"
  by (induction rule: list_all2_induct) auto

lemma insertBy_all2:
  assumes "list_all2 sameFlow xs ys" and "sameFlow x y"
  shows "list_all2 sameFlow (insertBy byValueDesc x xs) (insertBy byValueDesc y ys)"
  using assms
  by (induction rule: list_all2_induct) (auto simp: sameFlow_def byValueDesc_def)

lemma jsSort_all2:
  "list_all2 sameFlow xs ys \<Longrightarrow> list_all2 sameFlow (jsSort byValueDesc xs) (jsSort byValueDesc ys)"
  by (induction rule: list_all2_induct) (simp_all add: jsSort_def insertBy_all2)

lemma filteredData_same:
  assumes "list_all2 sameButCoords data data'"
  shows "list_all2 sameFlow (filteredData ns f data) (filteredData ns f data')"
proof -
  from assms have "list_all2 sameButCoords (filter (keepRow ns f) data) (filter (keepRow ns f) data')"
    by (rule filter_all2) (rule keepRow_same)
  then have "list_all2 sameFlow (map (annotate f) (filter (keepRow ns f) data))
     (map (annotate f) (filter (keepRow ns f) data'))"
    by (simp add: list_all2_map1 list_all2_map2 list_all2_mono annotate_same)
  then have "list_all2 sameFlow (filter positive (map (annotate f) (filter (keepRow ns f) data)))
     (filter positive (map (annotate f) (filter (keepRow ns f) data')))"
    by (rule filter_all2) (simp add: sameFlow_def positive_def)
  then show ?thesis
    unfolding filteredData_def by (rule jsSort_all2)
qed

lemma garbled_row_dropped:
  "filteredData ns scenarioFilters [garbledRow] = [annotate scenarioFilters garbledRow]
   \<and> mapData n (filteredData ns scenarioFilters [garbledRow]) = []"
proof -
  have f: "filteredData ns scenarioFilters [garbledRow] = [annotate scenarioFilters garbledRow]"
    by (simp add: selector_defs scenarioFilters_def scenarioRow_def garbledRow_def)
  have "mapRow (annotate scenarioFilters garbledRow) = None"
    by (simp add: mapRow_def Let_def annotate_def garbledRow_def removeQuotes_def finiteOrNaN_def
        fixLon_def number_defs)
  then have "mapData n [annotate scenarioFilters garbledRow] = []"
    by (cases n) (simp_all add: mapData_def)
  with f show ?thesis by simp
qed

lemma parse_emptyLat: "parseCSV emptyLatText = [emptyLatRow]"
  by (simp add: emptyLatText_def emptyLatRow_def parser_defs number_defs)

lemma filtered_emptyLat:
  "filteredData ns scenarioFilters [emptyLatRow] = [annotate scenarioFilters emptyLatRow]"
  by (simp add: selector_defs scenarioFilters_def emptyLatRow_def)

text \<open>
  C9, at an input that shows the defect. A record whose destination latitude cell is empty
  has a coordinate cell that does not parse as a finite number. It appears in the filtered
  and ranked sequence, as the claim says; but it is not excluded from the rows of the map:
  \<^verbatim>\<open>Number('')\<close> is 0, and the record is emitted with the destination latitude 0.
\<close>

theorem empty_latitude_not_excluded:
  "\<exists>r. filteredData ns scenarioFilters (parseCSV emptyLatText) = [annotate scenarioFilters emptyLatRow]
      \<and> cells (annotate scenarioFilters emptyLatRow) ''lat_d'' = Some (Str [])
      \<and> mapData n (filteredData ns scenarioFilters (parseCSV emptyLatText)) = [r]
      \<and> oCoords r = Some (Fin 42.36, Fin (- 71.06))
      \<and> dCoords r = Some (Fin 0, Fin (- 97.74))"
  unfolding parse_emptyLat filtered_emptyLat
  by (cases n) (simp_all add: mapdata_defs annotate_def selectValue_def scenarioFilters_def
      emptyLatRow_def number_defs)

section \<open>Longitude repair\<close>

lemma fixLon_sign: "fixLon (Fin x) = Fin (if 0 < x then - x else x)"
  by (simp add: fixLon_def)

lemma fixLon_examples: "fixLon (Fin 71.5) = Fin (- 71.5) \<and> fixLon (Fin (- 71.5)) = Fin (- 71.5)"
  by (simp add: fixLon_def)

lemma parse_emptyLon: "parseCSV emptyLonText = [emptyLonRow]"
  by (simp add: emptyLonText_def emptyLonRow_def scenarioRow_def parser_defs number_defs)

lemma filtered_emptyLon:
  "filteredData ns scenarioFilters [emptyLonRow] = [annotate scenarioFilters emptyLonRow]"
  by (simp add: selector_defs scenarioFilters_def emptyLonRow_def)

text \<open>
  C4, at the input that shows the defect. The longitude repair negates a positive longitude
  and keeps any other (\<open>fixLon_sign\<close>, \<open>fixLon_examples\<close>). But an empty longitude cell
  does not invalidate the record: \<^verbatim>\<open>Number('')\<close> is 0, so the record is emitted with the
  origin longitude 0.
\<close>

theorem empty_longitude_still_drawn:
  "\<exists>r. mapData n (filteredData ns scenarioFilters (parseCSV emptyLonText)) = [r]
      \<and> oCoords r = Some (Fin 42.36, Fin 0)
      \<and> dCoords r = Some (Fin 30.27, Fin (- 97.74))"
  unfolding parse_emptyLon filtered_emptyLon
  by (cases n) (simp_all add: mapdata_defs annotate_def selectValue_def scenarioFilters_def
      emptyLonRow_def number_defs)

section \<open>The coordinates that are emitted\<close>

lemma parse_highLat: "parseCSV highLatText = [highLatRow]"
  by (simp add: highLatText_def highLatRow_def scenarioRow_def parser_defs number_defs)

lemma filtered_highLat:
  "filteredData ns scenarioFilters [highLatRow] = [annotate scenarioFilters highLatRow]"
  by (simp add: selector_defs scenarioFilters_def highLatRow_def)

text \<open>
  C5, as the claim states it, fails: a row whose origin latitude is 100 is emitted with
  that latitude, outside [-90, 90].
\<close>

theorem latitude_range_counterexample:
  "length (mapData Top50 (filteredData nonFiniteText scenarioFilters (parseCSV highLatText))) = 1
   \<and> oCoords (hd (mapData Top50 (filteredData nonFiniteText scenarioFilters (parseCSV highLatText))))
       = Some (Fin 100, Fin (- 71.06))
   \<and> (90::real) < 100"
  unfolding parse_highLat filtered_highLat
  by (simp add: mapdata_defs annotate_def selectValue_def scenarioFilters_def
      highLatRow_def)

lemma fixLon_nonpos: "fixLon x = Fin y \<Longrightarrow> y \<le> 0"
  by (cases x) (auto simp: fixLon_def split: if_splits)

lemma mapRow_coords:
  assumes "mapRow r = Some r'"
  shows "\<exists>latO lonO latD lonD.
           oCoords r' = Some (Fin latO, Fin lonO) \<and> dCoords r' = Some (Fin latD, Fin lonD)
           \<and> lonO \<le> 0 \<and> lonD \<le> 0"
proof -
  let ?lonO = "fixLon (toNum (cells r ''lon_o''))" and ?latO = "toNum (cells r ''lat_o'')"
  let ?lonD = "fixLon (toNum (cells r ''lon_d''))" and ?latD = "toNum (cells r ''lat_d'')"
  from assms have fin: "isFinite ?lonO" "isFinite ?latO" "isFinite ?lonD" "isFinite ?latD"
    and r': "r' = r\<lparr> oCoords := Some (?latO, ?lonO), dCoords := Some (?latD, ?lonD) \<rparr>"
    by (auto simp: mapRow_def Let_def split: if_splits)
  from fin obtain a b c d where v: "?lonO = Fin a" "?latO = Fin b" "?lonD = Fin c" "?latD = Fin d"
    by (metis isFinite.elims(2))
  then have "a \<le> 0" and "c \<le> 0"
    using fixLon_nonpos by blast+
  with r' v show ?thesis by simp
qed

text \<open>
  C5, amended. Every record the map receives has four finite coordinates, and both its
  longitudes are at most 0 after the repair. Latitudes are not checked against a range.
\<close>

theorem emitted_coordinates_invariant:
  "\<forall>r \<in> set (mapData n fd). \<exists>latO lonO latD lonD.
      oCoords r = Some (Fin latO, Fin lonO) \<and> dCoords r = Some (Fin latD, Fin lonD)
      \<and> lonO \<le> 0 \<and> lonD \<le> 0"
proof
  fix r
  assume "r \<in> set (mapData n fd)"
  then obtain x where "mapRow x = Some r"
    by (auto simp: mapData_def List.map_filter_def)
  then show "\<exists>latO lonO latD lonD.
      oCoords r = Some (Fin latO, Fin lonO) \<and> dCoords r = Some (Fin latD, Fin lonD)
      \<and> lonO \<le> 0 \<and> lonD \<le> 0"
    by (rule mapRow_coords)
qed

theorem emitted_coordinates_invariant_witness:
  "mapData Top50 [annotate scenarioFilters scenarioRow] \<noteq> []
   \<and> (\<exists>latO lonO latD lonD.
      oCoords (hd (mapData Top50 [annotate scenarioFilters scenarioRow])) = Some (Fin latO, Fin lonO)
      \<and> dCoords (hd (mapData Top50 [annotate scenarioFilters scenarioRow])) = Some (Fin latD, Fin lonD)
      \<and> lonO \<le> 0 \<and> lonD \<le> 0)"
proof -
  have ne: "mapData Top50 [annotate scenarioFilters scenarioRow] \<noteq> []"
    by (simp add: mapdata_defs annotate_def scenarioRow_def)
  then have "hd (mapData Top50 [annotate scenarioFilters scenarioRow])
      \<in> set (mapData Top50 [annotate scenarioFilters scenarioRow])"
    by (rule hd_in_set)
  with ne show ?thesis
    using emitted_coordinates_invariant[of Top50 "[annotate scenarioFilters scenarioRow]"] by blast
qed

section \<open>Stroke weights of three flows\<close>

lemma ln_gap: "ln 11 + 1 / 10 ^ 6 \<le> ln (1001::real)"
proof -
  have "ln (11 / 1001 :: real) \<le> 11 / 1001 - 1"
    by (rule ln_le_minus_one) simp
  moreover have "ln (11 / 1001 :: real) = ln 11 - ln 1001"
    using ln_div[of "11::real" 1001] by simp
  ultimately show ?thesis by simp
qed

lemma strokeFor_formula:
  assumes "lo \<noteq> hi" and "0 \<le> v"
  shows "strokeFor (Fin lo, Fin hi) (Fin v) = Fin (specWeight lo hi v)"
proof -
  have v: "js_max (Fin 0) (Fin v) = Fin v"
    using assms(2) by simp
  have t: "js_div (js_sub (Fin (ln (1 + v))) (Fin lo)) (js_sub (Fin hi) (Fin lo))
           = Fin ((ln (1 + v) - lo) / (hi - lo))"
    using assms(1) by (simp add: js_sub_def)
  have clamp: "js_min (Fin 1) (js_max (Fin 0) (Fin t)) = Fin (min 1 (max 0 t))" for t :: real
    by (simp add: min_def max_def)
  have pow: "js_pow115 (Fin (min 1 (max 0 t))) = Fin (min 1 (max 0 t) powr 1.15)" for t :: real
    by simp
  have lg: "js_log1p (Fin v) = Fin (ln (1 + v))"
    using assms(2) by simp
  have "strokeFor (Fin lo, Fin hi) (Fin v)
        = js_add minW (js_mul (Fin (min 1 (max 0 ((ln (1 + v) - lo) / (hi - lo))) powr 1.15))
            (js_sub maxW minW))"
    by (simp only: strokeFor_def Let_def fst_conv snd_conv v lg t clamp pow)
  then show ?thesis
    by (simp add: specWeight_def minW_def maxW_def js_sub_def)
qed

lemma specWeight_top: "specWeight (ln 11) (ln 1001) 1000 = 14"
proof -
  have "ln (1001::real) - ln 11 \<noteq> 0"
    using ln_gap by simp
  then show ?thesis by (simp add: specWeight_def)
qed

lemma specWeight_bottom: "specWeight (ln 11) (ln 1001) 10 = 0.8"
  by (simp add: specWeight_def)

lemma specWeight_least: "0.8 \<le> specWeight lo hi v"
  by (simp add: specWeight_def)

lemma minOf_least:
  assumes "logs \<noteq> []" and "\<forall>l \<in> set logs. isFinite l"
  shows "\<exists>m. minOf logs = Fin m \<and> Fin m \<in> set logs \<and> (\<forall>x. Fin x \<in> set logs \<longrightarrow> m \<le> x)"
  using assms
proof (induction logs)
  case Nil
  then show ?case by simp
next
  case (Cons a logs)
  then obtain x where a: "a = Fin x"
    by (cases a) simp_all
  show ?case
  proof (cases "logs = []")
    case True
    then show ?thesis by (simp add: a minOf_def)
  next
    case False
    with Cons obtain m where m: "minOf logs = Fin m" "Fin m \<in> set logs"
      "\<forall>y. Fin y \<in> set logs \<longrightarrow> m \<le> y"
      by auto
    show ?thesis
    proof (cases "m < x")
      case True
      with m show ?thesis by (auto simp: a minOf_Cons)
    next
      case False
      with m show ?thesis by (fastforce simp: a minOf_Cons)
    qed
  qed
qed

lemma maxOf_greatest:
  assumes "logs \<noteq> []" and "\<forall>l \<in> set logs. isFinite l"
  shows "\<exists>m. maxOf logs = Fin m \<and> Fin m \<in> set logs \<and> (\<forall>x. Fin x \<in> set logs \<longrightarrow> x \<le> m)"
  using assms
proof (induction logs)
  case Nil
  then show ?case by simp
next
  case (Cons a logs)
  then obtain x where a: "a = Fin x"
    by (cases a) simp_all
  show ?case
  proof (cases "logs = []")
    case True
    then show ?thesis by (simp add: a maxOf_def)
  next
    case False
    with Cons obtain m where m: "maxOf logs = Fin m" "Fin m \<in> set logs"
      "\<forall>y. Fin y \<in> set logs \<longrightarrow> y \<le> m"
      by auto
    show ?thesis
    proof (cases "x < m")
      case True
      with m show ?thesis by (auto simp: a maxOf_Cons)
    next
      case False
      with m show ?thesis by (fastforce simp: a maxOf_Cons)
    qed
  qed
qed

lemma logOf_value: "0 \<le> v \<Longrightarrow> displayValue f = Fin v \<Longrightarrow> logOf f = Fin (ln (1 + v))"
  by (simp add: logOf_def drawnValue_def)

lemma minMaxLog_of_three:
  assumes "mset (map displayValue flows) = {#Fin 10, Fin 100, Fin 1000#}"
  shows "minMaxLog flows = (Fin (ln 11), Fin (ln 1001))"
proof -
  from assms have "set_mset (mset (map displayValue flows)) = {Fin 10, Fin 100, Fin 1000}"
    by simp
  then have vals: "displayValue ` set flows = {Fin 10, Fin 100, Fin 1000}"
    by simp
  from assms have ne: "flows \<noteq> []" by auto
  let ?logs = "map logOf flows"
  have each: "logOf f \<in> {Fin (ln 11), Fin (ln 101), Fin (ln 1001)}" if "f \<in> set flows" for f
  proof -
    from that vals have "displayValue f \<in> {Fin 10, Fin 100, Fin 1000}" by blast
    then show ?thesis
      using logOf_value[of 10 f] logOf_value[of 100 f] logOf_value[of 1000 f] by auto
  qed
  have has: "Fin (ln 11) \<in> set ?logs" "Fin (ln 1001) \<in> set ?logs"
  proof -
    from vals obtain f where "f \<in> set flows" "displayValue f = Fin 10" by (metis imageE insertI1)
    then show "Fin (ln 11) \<in> set ?logs"
      using logOf_value[of 10 f] by force
    from vals obtain g where "g \<in> set flows" "displayValue g = Fin 1000"
      by (metis imageE insertI1 insert_commute)
    then show "Fin (ln 1001) \<in> set ?logs"
      using logOf_value[of 1000 g] by force
  qed
  have sub: "set ?logs \<subseteq> {Fin (ln 11), Fin (ln 101), Fin (ln 1001)}"
    using each by auto
  then have fin: "\<forall>l \<in> set ?logs. isFinite l" by auto
  have lne: "?logs \<noteq> []" using ne by simp
  from minOf_least[OF lne fin] obtain m where m: "minOf ?logs = Fin m" "Fin m \<in> set ?logs"
    "\<forall>x. Fin x \<in> set ?logs \<longrightarrow> m \<le> x" by blast
  from m(3) has(1) have "m \<le> ln 11" by blast
  moreover from m(2) sub have "m \<in> {ln 11, ln 101, ln 1001}" by auto
  ultimately have mn: "m = ln 11" by auto
  from maxOf_greatest[OF lne fin] obtain M where M: "maxOf ?logs = Fin M" "Fin M \<in> set ?logs"
    "\<forall>x. Fin x \<in> set ?logs \<longrightarrow> x \<le> M" by blast
  from M(3) has(2) have "ln 1001 \<le> M" by blast
  moreover from M(2) sub have "M \<in> {ln 11, ln 101, ln 1001}" by auto
  ultimately have mx: "M = ln 1001" by auto
  have "js_max (Fin (ln 1001)) (js_add (Fin (ln 11)) (Fin (1 / 10 ^ 6))) = Fin (ln 1001)"
    using ln_gap by simp
  then show ?thesis
    using ne by (simp add: minMaxLog_def Let_def m(1) M(1) mn mx)
qed

text \<open>
  C6. For flows with coordinates whose displayValues are 10, 100 and 1000, in any order,
  minLog is ln 11 and maxLog is ln 1001, and each weight is the finite number the formula
  of the specification gives at the flow's value. The weight at 1000 is 14.0 (so within
  1e-6 of it), and the weight at 10 is the least of the three.
\<close>

theorem weights_of_three:
  assumes "mset (map displayValue flows) = {#Fin 10, Fin 100, Fin 1000#}" and "list_all hasCoords flows"
  shows "minMaxLog flows = (Fin (ln 11), Fin (ln 1001))
    \<and> list_all2 (weightMatches (ln 11) (ln 1001)) flows (lineWeights flows)
    \<and> specWeight (ln 11) (ln 1001) 1000 = 14.0
    \<and> \<bar>specWeight (ln 11) (ln 1001) 1000 - 14.0\<bar> \<le> 1 / 10 ^ 6
    \<and> specWeight (ln 11) (ln 1001) 10 \<le> specWeight (ln 11) (ln 1001) 100
    \<and> specWeight (ln 11) (ln 1001) 10 \<le> specWeight (ln 11) (ln 1001) 1000"
proof -
  have mm: "minMaxLog flows = (Fin (ln 11), Fin (ln 1001))"
    using assms(1) by (rule minMaxLog_of_three)
  have ne: "ln (11::real) \<noteq> ln 1001"
    using ln_gap by simp
  from assms(1) have "set_mset (mset (map displayValue flows)) = {Fin 10, Fin 100, Fin 1000}"
    by simp
  then have vals: "displayValue ` set flows = {Fin 10, Fin 100, Fin 1000}"
    by simp
  have each: "weightMatches (ln 11) (ln 1001) f
      (if oCoords f = None \<or> dCoords f = None then None
       else Some (strokeFor (Fin (ln 11), Fin (ln 1001)) (drawnValue f)))"
    if "f \<in> set flows" for f
  proof -
    from that assms(2) have co: "oCoords f \<noteq> None" "dCoords f \<noteq> None"
      by (simp_all add: list_all_iff hasCoords_def)
    from that vals have "displayValue f \<in> {Fin 10, Fin 100, Fin 1000}" by blast
    then obtain v where v: "displayValue f = Fin v" "0 \<le> v" by auto
    then have "drawnValue f = Fin v" by (simp add: drawnValue_def)
    with v co ne show ?thesis
      by (simp add: weightMatches_def strokeFor_formula)
  qed
  have lw: "list_all2 (weightMatches (ln 11) (ln 1001)) flows (lineWeights flows)"
    unfolding lineWeights_def mm list_all2_map2 using each by (simp add: list_all2_same)
  show ?thesis
    using mm lw specWeight_least[of "ln 11" "ln 1001"]
    by (simp add: specWeight_top specWeight_bottom)
qed

lemma three_rendered:
  "map displayValue (mapData Top50 (filteredData nonFiniteText scenarioFilters (parseCSV threeFlowsText)))
     = [Fin 1000, Fin 100, Fin 10]
   \<and> list_all hasCoords
        (mapData Top50 (filteredData nonFiniteText scenarioFilters (parseCSV threeFlowsText)))"
  by (simp add: threeFlowsText_def parser_defs number_defs selector_defs scenarioFilters_def
      mapdata_defs hasCoords_def)

theorem weights_of_three_witness:
  "map displayValue (mapData Top50 (filteredData nonFiniteText scenarioFilters (parseCSV threeFlowsText)))
     = [Fin 1000, Fin 100, Fin 10]
   \<and> list_all hasCoords
        (mapData Top50 (filteredData nonFiniteText scenarioFilters (parseCSV threeFlowsText)))
   \<and> minMaxLog (mapData Top50 (filteredData nonFiniteText scenarioFilters (parseCSV threeFlowsText)))
       = (Fin (ln 11), Fin (ln 1001))
   \<and> lineWeights (mapData Top50 (filteredData nonFiniteText scenarioFilters (parseCSV threeFlowsText)))
       = [Some (Fin 14.0), Some (Fin (specWeight (ln 11) (ln 1001) 100)), Some (Fin 0.8)]"
proof -
  let ?R = "mapData Top50 (filteredData nonFiniteText scenarioFilters (parseCSV threeFlowsText))"
  have d: "map displayValue ?R = [Fin 1000, Fin 100, Fin 10]" and c: "list_all hasCoords ?R"
    using three_rendered by simp_all
  have m: "mset (map displayValue ?R) = {#Fin 10, Fin 100, Fin 1000#}"
    unfolding d by simp
  from d obtain r1 r2 r3 where R: "?R = [r1, r2, r3]"
    and v: "displayValue r1 = Fin 1000" "displayValue r2 = Fin 100" "displayValue r3 = Fin 10"
    by auto
  from weights_of_three[OF m c]
  have mm: "minMaxLog ?R = (Fin (ln 11), Fin (ln 1001))"
    and lw: "list_all2 (weightMatches (ln 11) (ln 1001)) ?R (lineWeights ?R)"
    by simp_all
  from lw have "lineWeights ?R
      = [Some (Fin (specWeight (ln 11) (ln 1001) 1000)), Some (Fin (specWeight (ln 11) (ln 1001) 100)),
         Some (Fin (specWeight (ln 11) (ln 1001) 10))]"
    unfolding R using v by (auto simp: list_all2_Cons1 weightMatches_def)
  then have "lineWeights ?R
      = [Some (Fin 14.0), Some (Fin (specWeight (ln 11) (ln 1001) 100)), Some (Fin 0.8)]"
    by (simp add: specWeight_top specWeight_bottom)
  with d c mm show ?thesis by simp
qed

section \<open>The denominator of the normalization\<close>

lemma parse_infinity: "parseCSV infinityText = [infinityRow]"
  by (simp add: infinityText_def infinityRow_def parser_defs number_defs)

lemma filtered_infinity:
  "filteredData ns scenarioFilters [infinityRow] = [annotate scenarioFilters infinityRow]"
  by (simp add: selector_defs scenarioFilters_def infinityRow_def)

text \<open>
  C7, as the claim states it, fails: a single flow whose magnitude cell reads Infinity
  gives minLog = maxLog = Infinity, and the denominator Infinity - Infinity is NaN, which
  is not strictly positive; the weight of the line is NaN.
\<close>

theorem infinite_value_counterexample:
  "length (mapData Top50 (filteredData nonFiniteText scenarioFilters (parseCSV infinityText))) = 1
   \<and> minMaxLog (mapData Top50 (filteredData nonFiniteText scenarioFilters (parseCSV infinityText)))
       = (PInf, PInf)
   \<and> denominator (mapData Top50 (filteredData nonFiniteText scenarioFilters (parseCSV infinityText)))
       = NaN
   \<and> \<not> js_gt (denominator
         (mapData Top50 (filteredData nonFiniteText scenarioFilters (parseCSV infinityText)))) (Fin 0)
   \<and> lineWeights (mapData Top50 (filteredData nonFiniteText scenarioFilters (parseCSV infinityText)))
       = [Some NaN]"
  unfolding parse_infinity filtered_infinity
  by (simp add: mapdata_defs annotate_def selectValue_def scenarioFilters_def infinityRow_def
      minMaxLog_def logOf_def drawnValue_def minOf_def maxOf_def lineWeights_def strokeFor_def
      js_sub_def minW_def maxW_def denominator_def)

lemma logOf_cases: "(\<exists>x. logOf f = Fin x) \<or> logOf f = PInf"
  by (cases "displayValue f") (simp_all add: logOf_def drawnValue_def)

lemma logOf_PInf: "logOf f = PInf \<longleftrightarrow> displayValue f = PInf"
  by (cases "displayValue f") (simp_all add: logOf_def drawnValue_def)

lemma logOf_good: "finOrPInf (logOf f)"
  using logOf_cases[of f] by (auto simp: finOrPInf_def)

lemma js_min_good: "finOrPInf a \<Longrightarrow> finOrPInf b \<Longrightarrow> finOrPInf (js_min a b)"
  by (cases a; cases b) (simp_all add: finOrPInf_def)

lemma js_max_good: "finOrPInf a \<Longrightarrow> b \<noteq> NaN \<Longrightarrow> finOrPInf (js_max a b)"
  by (cases a; cases b) (simp_all add: finOrPInf_def)

lemma js_min_Fin: "isFinite a \<Longrightarrow> finOrPInf b \<Longrightarrow> isFinite (js_min a b)"
  by (cases a; cases b) (simp_all add: finOrPInf_def)

lemma js_min_Fin2: "finOrPInf a \<Longrightarrow> isFinite b \<Longrightarrow> isFinite (js_min a b)"
  by (cases a; cases b) (simp_all add: finOrPInf_def)

lemma minOf_good: "list_all finOrPInf logs \<Longrightarrow> finOrPInf (minOf logs)"
proof (induction logs)
  case Nil
  show ?case by (simp add: minOf_def finOrPInf_def)
next
  case (Cons a logs)
  then show ?case by (simp add: minOf_Cons js_min_good)
qed

lemma minOf_Fin:
  "list_all finOrPInf logs \<Longrightarrow> \<exists>x \<in> set logs. isFinite x \<Longrightarrow> isFinite (minOf logs)"
proof (induction logs)
  case Nil
  then show ?case by simp
next
  case (Cons a logs)
  then have g: "finOrPInf a" "finOrPInf (minOf logs)"
    by (simp_all add: minOf_good)
  show ?case
  proof (cases "isFinite a")
    case True
    with g show ?thesis by (simp add: minOf_Cons js_min_Fin)
  next
    case False
    with Cons have "isFinite (minOf logs)" by auto
    with g show ?thesis by (simp add: minOf_Cons js_min_Fin2)
  qed
qed

lemma minOf_all_PInf: "\<forall>x \<in> set logs. x = PInf \<Longrightarrow> minOf logs = PInf"
  by (induction logs) (simp_all add: minOf_def)

lemma maxOf_good: "list_all finOrPInf logs \<Longrightarrow> logs \<noteq> [] \<Longrightarrow> finOrPInf (maxOf logs)"
proof (induction logs)
  case Nil
  then show ?case by simp
next
  case (Cons a logs)
  then have a: "finOrPInf a" by simp
  show ?case
  proof (cases "logs = []")
    case True
    with a show ?thesis
      by (cases a) (simp_all add: maxOf_def finOrPInf_def)
  next
    case False
    with Cons have "finOrPInf (maxOf logs)" by simp
    then have "maxOf logs \<noteq> NaN" by (simp add: finOrPInf_def)
    with a show ?thesis
      by (simp add: maxOf_Cons js_max_good)
  qed
qed

lemma gap_positive:
  assumes "finOrPInf mx"
  shows "\<exists>hi. js_max mx (js_add (Fin lo) (Fin (1 / 10 ^ 6))) = hi
           \<and> (hi = PInf \<or> (\<exists>h. hi = Fin h \<and> lo + 1 / 10 ^ 6 \<le> h))"
  using assms by (cases mx) (auto simp: finOrPInf_def)

lemma denominator_cases:
  assumes "flows \<noteq> []"
  shows "(\<exists>lo hi. minMaxLog flows = (Fin lo, Fin hi) \<and> lo + 1 / 10 ^ 6 \<le> hi)
         \<or> (\<exists>lo. minMaxLog flows = (Fin lo, PInf))
         \<or> (minMaxLog flows = (PInf, PInf) \<and> (\<forall>f \<in> set flows. displayValue f = PInf))"
proof -
  let ?logs = "map logOf flows"
  have good: "list_all finOrPInf ?logs"
    by (simp add: list_all_iff logOf_good)
  have ne: "?logs \<noteq> []"
    using assms by simp
  have mx: "finOrPInf (maxOf ?logs)"
    using good ne by (rule maxOf_good)
  have mm: "minMaxLog flows = (minOf ?logs, js_max (maxOf ?logs) (js_add (minOf ?logs) (Fin (1 / 10 ^ 6))))"
    using assms by (simp add: minMaxLog_def Let_def)
  show ?thesis
  proof (cases "\<exists>f \<in> set flows. displayValue f \<noteq> PInf")
    case True
    then obtain f where f: "f \<in> set flows" "displayValue f \<noteq> PInf"
      by blast
    then have "isFinite (logOf f)"
      using logOf_cases[of f] logOf_PInf[of f] by auto
    with f(1) have "\<exists>x \<in> set ?logs. isFinite x"
      by auto
    with good have "isFinite (minOf ?logs)"
      by (rule minOf_Fin)
    then obtain lo where lo: "minOf ?logs = Fin lo"
      by (cases "minOf ?logs") simp_all
    from gap_positive[OF mx, of lo] show ?thesis
      unfolding mm lo by auto
  next
    case False
    then have all: "\<forall>f \<in> set flows. displayValue f = PInf" by simp
    then have "\<forall>x \<in> set ?logs. x = PInf"
      by (simp add: logOf_PInf)
    then have lo: "minOf ?logs = PInf"
      by (rule minOf_all_PInf)
    have "js_max (maxOf ?logs) PInf = PInf"
      using mx by (cases "maxOf ?logs") (simp_all add: finOrPInf_def)
    with all show ?thesis
      unfolding mm lo by simp
  qed
qed

lemma denominator_empty: "denominator [] = Fin 1"
  by (simp add: denominator_def minMaxLog_def js_sub_def)

lemma minMaxLog_equal:
  assumes "flows \<noteq> []" and "\<forall>f \<in> set flows. logOf f = l"
  shows "minMaxLog flows = (l, js_add l (Fin (1 / 10 ^ 6)))"
proof -
  from assms obtain f where "logOf f = l"
    by (cases flows) auto
  then have l: "(\<exists>x. l = Fin x) \<or> l = PInf"
    using logOf_cases[of f] by simp
  from assms(2) have logs: "map logOf flows = replicate (length flows) l"
    by (simp add: map_replicate_const[symmetric] cong: map_cong)
  from assms(1) obtain n where n: "length flows = Suc n"
    by (cases flows) auto
  have mn: "minOf (replicate (Suc k) l) = l" for k
    using l by (induction k) (auto simp: minOf_def)
  have mx: "maxOf (replicate (Suc k) l) = l" for k
    using l by (induction k) (auto simp: maxOf_def)
  have "js_max l (js_add l (Fin (1 / 10 ^ 6))) = js_add l (Fin (1 / 10 ^ 6))"
    using l by auto
  with assms(1) show ?thesis
    by (simp add: minMaxLog_def Let_def logs n mn mx del: replicate.simps)
qed

text \<open>
  C7, amended. No flows give no weights. The denominator is never zero. It is strictly
  positive for the empty subset and whenever the displayValue of some flow is not
  +Infinity. When all the logarithms are equal, maxLog is minLog + 1e-6.
\<close>

theorem denominator_never_zero:
  "lineWeights [] = []
   \<and> denominator flows \<noteq> Fin 0
   \<and> (flows = [] \<or> (\<exists>f \<in> set flows. displayValue f \<noteq> PInf) \<longrightarrow> js_gt (denominator flows) (Fin 0))
   \<and> (flows \<noteq> [] \<and> (\<forall>f \<in> set flows. logOf f = l) \<longrightarrow>
        minMaxLog flows = (l, js_add l (Fin (1 / 10 ^ 6))))"
proof (intro conjI impI)
  show "lineWeights [] = []"
    by (simp add: lineWeights_def)
  show "denominator flows \<noteq> Fin 0"
  proof (cases "flows = []")
    case True
    then show ?thesis by (simp add: denominator_empty)
  next
    case False
    from denominator_cases[OF False] show ?thesis
      by (auto simp: denominator_def js_sub_def)
  qed
  show "js_gt (denominator flows) (Fin 0)"
    if "flows = [] \<or> (\<exists>f \<in> set flows. displayValue f \<noteq> PInf)"
  proof (cases "flows = []")
    case True
    then show ?thesis by (simp add: denominator_empty)
  next
    case False
    with that have "\<exists>f \<in> set flows. displayValue f \<noteq> PInf" by simp
    with denominator_cases[OF False] show ?thesis
      by (auto simp: denominator_def js_sub_def)
  qed
  show "minMaxLog flows = (l, js_add l (Fin (1 / 10 ^ 6)))"
    if "flows \<noteq> [] \<and> (\<forall>f \<in> set flows. logOf f = l)"
    using that minMaxLog_equal[of flows l] by blast
qed

theorem denominator_never_zero_witness:
  "[flowOf (Fin 10), flowOf (Fin 10)] \<noteq> []
   \<and> logOf (flowOf (Fin 10)) = Fin (ln 11)
   \<and> displayValue (flowOf (Fin 10)) \<noteq> PInf
   \<and> js_gt (denominator [flowOf (Fin 10), flowOf (Fin 10)]) (Fin 0)
   \<and> minMaxLog [flowOf (Fin 10), flowOf (Fin 10)] = (Fin (ln 11), Fin (ln 11 + 1 / 10 ^ 6))"
  using denominator_never_zero[of "[flowOf (Fin 10), flowOf (Fin 10)]" "Fin (ln 11)"]
  by (simp add: logOf_def drawnValue_def flowOf_def)

end
